theory Spec2Isabelle
  imports Main "HOL-Library.Word"
begin

section \<open>JavaScript values used by the two applications\<close>

text \<open>
  The repository holds two React applications with the same shape. Names from
  \<^verbatim>\<open>src/index.tsx\<close> (the catalog of \<^emph>\<open>resources\<close>, comments nested per resource)
  carry the suffix \<open>_R\<close>; names from \<^verbatim>\<open>src/unnamed/part_000\<close> (the catalog of
  \<^emph>\<open>experiences\<close> with nested files, one global comment list) carry the suffix \<open>_E\<close>.

  A JavaScript string is a sequence of 16-bit code units. A \<^verbatim>\<open>number\<close> is a
  double; the counters and numeric identifiers hold integers, and the model carries the
  integer a double holds as an \<open>int\<close>. Comparison with \<^verbatim>\<open>===\<close> is equality of
  the integers. Addition and conversion to a string are exact only up to \<open>2^53\<close>, so
  each has a definition of its own below.
\<close>

type_synonym jsstring = "16 word list"

definition lit :: "string \<Rightarrow> jsstring" where
  "lit s = map (\<lambda>c. of_char c) s"

definition dq :: "16 word" where
  "dq = 0x22"

definition nl :: "16 word" where
  "nl = 0x0A"

text \<open>
  \<^verbatim>\<open>String.prototype.trim\<close> strips the code units of ECMAScript's WhiteSpace and
  LineTerminator productions from both ends.
\<close>

definition isWhiteSpace :: "16 word \<Rightarrow> bool" where
  "isWhiteSpace c \<longleftrightarrow>
     c = 0x09 \<or> c = 0x0A \<or> c = 0x0B \<or> c = 0x0C \<or> c = 0x0D \<or> c = 0x20 \<or>
     c = 0xA0 \<or> c = 0x1680 \<or> (0x2000 \<le> c \<and> c \<le> 0x200A) \<or>
     c = 0x2028 \<or> c = 0x2029 \<or> c = 0x202F \<or> c = 0x205F \<or> c = 0x3000 \<or>
     c = 0xFEFF"

definition trim :: "jsstring \<Rightarrow> jsstring" where
  "trim s = rev (dropWhile isWhiteSpace (rev (dropWhile isWhiteSpace s)))"

text \<open>
  The decimal digits of an integer, with a leading minus sign for a negative one.
\<close>

definition digit :: "nat \<Rightarrow> 16 word" where
  "digit d = of_nat (48 + d)"

fun natToString :: "nat \<Rightarrow> jsstring" where
  "natToString n =
     (if n < 10 then [digit n] else natToString (n div 10) @ [digit (n mod 10)])"

declare natToString.simps [simp del]

definition decimal :: "int \<Rightarrow> jsstring" where
  "decimal n = (if n < 0 then 0x2D # natToString (nat (- n)) else natToString (nat n))"

text \<open>
  A number interpolated into a template literal, as in \<^verbatim>\<open>${r.downloadCount}\<close>, is
  converted by the Number-to-string algorithm: it writes the shortest digit string that
  reads back as the same double, which for an integer up to \<open>2^53\<close> in magnitude is
  its decimal expansion. For the larger integers the digits are rounded or in exponent
  form (\<^verbatim>\<open>1e+21\<close>); that rendering is not modelled and is the parameter \<open>big\<close>.
\<close>

definition numberToString :: "(int \<Rightarrow> jsstring) \<Rightarrow> int \<Rightarrow> jsstring" where
  "numberToString big n = (if - (2 ^ 53) \<le> n \<and> n \<le> 2 ^ 53 then decimal n else big n)"

text \<open>
  \<^verbatim>\<open>Date.now()\<close> returns a time value: an integer number of milliseconds between
  \<open>-8.64 * 10^15\<close> and \<open>8.64 * 10^15\<close>. The only explicit call of
  \<^verbatim>\<open>toString\<close> in the sources is \<^verbatim>\<open>Date.now().toString()\<close>; every time value
  is below \<open>2^53\<close> in magnitude, so the call writes its decimal digits.
\<close>

typedef timeValue = "{n :: int. - 8640000000000000 \<le> n \<and> n \<le> 8640000000000000}"
  by (rule exI [of _ 0]) simp

definition toString :: "timeValue \<Rightarrow> jsstring" where
  "toString t = decimal (Rep_timeValue t)"

text \<open>
  \<^verbatim>\<open>count + 1\<close> on a double holding an integer. From \<open>-2^53\<close> to \<open>2^53 - 1\<close>
  the sum is exact. Beyond, the doubles are the even integers (the multiples of 4 from
  \<open>2^54\<close> on), the exact sum is not one of them and is rounded to the nearest double,
  ties to the even mantissa: a multiple of 4 is returned as it is (so
  \<open>2^53 + 1 = 2^53\<close>) and the other even integers move up by 2.
\<close>

definition plusOne :: "int \<Rightarrow> int" where
  "plusOne n =
     (if - (2 ^ 53) \<le> n \<and> n < 2 ^ 53 then n + 1 else if n mod 4 = 2 then n + 2 else n)"

text \<open>\<^verbatim>\<open>Array.prototype.join\<close> on an array of strings.\<close>

fun join :: "jsstring \<Rightarrow> jsstring list \<Rightarrow> jsstring" where
  "join sep [] = []"
| "join sep [x] = x"
| "join sep (x # y # ys) = x @ sep @ join sep (y # ys)"

text \<open>\<^verbatim>\<open>text.replace(/"/g, '""')\<close>: every double quote becomes two.\<close>

definition escapeQuotes :: "jsstring \<Rightarrow> jsstring" where
  "escapeQuotes t = concat (map (\<lambda>c. if c = dq then [dq, dq] else [c]) t)"

section \<open>The resource catalog (\<^verbatim>\<open>src/index.tsx\<close>)\<close>

datatype ResourceType = Pdf | Audio

record Comment_R =
  c_id_R :: jsstring
  c_author_R :: jsstring
  c_text_R :: jsstring
  c_date_R :: jsstring

record Resource =
  r_id :: jsstring
  r_title :: jsstring
  r_description :: jsstring
  r_type :: ResourceType
  r_url :: jsstring
  r_downloadCount :: int
  r_comments :: "Comment_R list"

text \<open>The state held by \<^verbatim>\<open>App\<close> through \<^verbatim>\<open>useState\<close>.\<close>

record App_R =
  resources :: "Resource list"
  showStats :: bool
  aiAnalysis_R :: "jsstring option"
  isAnalyzing_R :: bool

text \<open>The state held by one \<^verbatim>\<open>ResourceCard\<close>.\<close>

record Card_R =
  showComments :: bool
  newComment :: jsstring
  authorName :: jsstring

text \<open>
  \<^verbatim>\<open>handleDownload\<close> maps over the resources, bumping every one whose id is the
  argument, and then raises an alert; the alert's text is the second component.
\<close>

definition handleDownload_R :: "jsstring \<Rightarrow> jsstring \<Rightarrow> App_R \<Rightarrow> App_R \<times> jsstring" where
  "handleDownload_R ident title s =
     (s\<lparr>resources :=
          map (\<lambda>r. if r_id r = ident then r\<lparr>r_downloadCount := plusOne (r_downloadCount r)\<rparr> else r)
            (resources s)\<rparr>,
      lit ''Descargando recurso: '' @ title)"

text \<open>
  \<^verbatim>\<open>handleAddComment\<close> reads the clock twice: \<open>now\<close> is \<^verbatim>\<open>Date.now()\<close> and
  \<open>today\<close> is \<^verbatim>\<open>new Date().toISOString().split('T')[0]\<close>. An empty author is
  falsy, so \<^verbatim>\<open>author || "Usuario"\<close> replaces it.
\<close>

definition mkComment_R :: "timeValue \<Rightarrow> jsstring \<Rightarrow> jsstring \<Rightarrow> jsstring \<Rightarrow> Comment_R" where
  "mkComment_R now today text author =
     \<lparr>c_id_R = toString now,
      c_author_R = (if author = [] then lit ''Usuario'' else author),
      c_text_R = text,
      c_date_R = today\<rparr>"

definition handleAddComment_R ::
  "timeValue \<Rightarrow> jsstring \<Rightarrow> jsstring \<Rightarrow> jsstring \<Rightarrow> jsstring \<Rightarrow> App_R \<Rightarrow> App_R" where
  "handleAddComment_R now today ident text author s =
     s\<lparr>resources :=
         map (\<lambda>r. if r_id r = ident
                   then r\<lparr>r_comments := mkComment_R now today text author # r_comments r\<rparr>
                   else r)
           (resources s)\<rparr>"

text \<open>
  \<^verbatim>\<open>handleSubmitComment\<close> of the card showing \<open>resource\<close>: a text that trims to the
  empty string returns early; otherwise the comment is added and the text box cleared.
\<close>

definition handleSubmitComment_R ::
  "timeValue \<Rightarrow> jsstring \<Rightarrow> Resource \<Rightarrow> Card_R \<times> App_R \<Rightarrow> Card_R \<times> App_R" where
  "handleSubmitComment_R now today resource cs =
     (case cs of (crd, s) \<Rightarrow>
        if trim (newComment crd) = [] then (crd, s)
        else (crd\<lparr>newComment := []\<rparr>,
              handleAddComment_R now today (r_id resource) (newComment crd) (authorName crd) s))"

text \<open>
  \<^verbatim>\<open>exportStats\<close>: the value of \<^verbatim>\<open>csvContent\<close>, one row per resource. The
  parameter \<open>big\<close> is the one of \<open>numberToString\<close>.
\<close>

definition typeString :: "ResourceType \<Rightarrow> jsstring" where
  "typeString t = (case t of Pdf \<Rightarrow> lit ''pdf'' | Audio \<Rightarrow> lit ''audio'')"

definition row_R :: "(int \<Rightarrow> jsstring) \<Rightarrow> Resource \<Rightarrow> jsstring" where
  "row_R big r =
     r_id r @ lit '','' @ [dq] @ r_title r @ [dq] @ lit '','' @ typeString (r_type r) @
     lit '','' @ numberToString big (r_downloadCount r) @ lit '','' @
     numberToString big (int (length (r_comments r)))"

definition exportStats :: "(int \<Rightarrow> jsstring) \<Rightarrow> App_R \<Rightarrow> jsstring" where
  "exportStats big s =
     (let headers = lit ''ID,Titulo,Tipo,Descargas,Total_Comentarios'' @ [nl];
          rows = join [nl] (map (row_R big) (resources s))
      in lit ''data:text/csv;charset=utf-8,'' @ headers @ rows)"

text \<open>
  \<^verbatim>\<open>analyzeWithGemini\<close>. The text-generation service is a collaborator: its answers
  to successive calls are a script, and an empty script is a call that never settles.
  An answer is an exception of the \<^verbatim>\<open>try\<close> block or a response, whose
  \<^verbatim>\<open>text\<close> may be undefined.
\<close>

datatype 'e outcome = Throws 'e | Responds "jsstring option"

definition fallback_R :: jsstring where
  "fallback_R =
     lit ''Error de conexi'' @ [0xF3] @
     lit ''n con el asistente. Por favor verifica la configuraci'' @ [0xF3] @ lit ''n.''"

definition analyzeWithGemini_R :: "'e outcome list \<Rightarrow> App_R \<Rightarrow> App_R \<times> 'e outcome list" where
  "analyzeWithGemini_R service s =
     (let s1 = s\<lparr>isAnalyzing_R := True, aiAnalysis_R := None\<rparr>
      in case service of
           [] \<Rightarrow> (s1, [])
         | Responds t # rest \<Rightarrow> (s1\<lparr>aiAnalysis_R := t, isAnalyzing_R := False\<rparr>, rest)
         | Throws e # rest \<Rightarrow>
             (s1\<lparr>aiAnalysis_R := Some fallback_R, isAnalyzing_R := False\<rparr>, rest))"

section \<open>The experience catalog (\<^verbatim>\<open>src/unnamed/part_000\<close>)\<close>

record DownloadableFile =
  f_id :: jsstring
  f_label :: jsstring
  f_filename :: jsstring
  f_count :: int

record Experience =
  e_id :: int
  e_title :: jsstring
  e_audioSrc :: jsstring
  e_files :: "DownloadableFile list"

record Comment_E =
  c_id_E :: jsstring
  c_author_E :: jsstring
  c_email_E :: "jsstring option"
  c_text_E :: jsstring
  c_date_E :: jsstring

record App_E =
  experiences :: "Experience list"
  comments :: "Comment_E list"
  showAdmin :: bool
  aiAnalysis_E :: "jsstring option"
  isAnalyzing_E :: bool

text \<open>The state held by \<^verbatim>\<open>CommentForm\<close>.\<close>

record Form_E =
  form_name :: jsstring
  form_email :: jsstring
  form_text :: jsstring

definition handleDownload_E :: "int \<Rightarrow> jsstring \<Rightarrow> App_E \<Rightarrow> App_E" where
  "handleDownload_E expId fileId s =
     s\<lparr>experiences :=
         map (\<lambda>exp. if e_id exp \<noteq> expId then exp
                     else exp\<lparr>e_files :=
                            map (\<lambda>f. if f_id f = fileId then f\<lparr>f_count := plusOne (f_count f)\<rparr> else f)
                              (e_files exp)\<rparr>)
           (experiences s)\<rparr>"

text \<open>
  Here \<open>now\<close> is \<^verbatim>\<open>Date.now()\<close> and \<open>stamp\<close> is
  \<^verbatim>\<open>new Date().toLocaleString()\<close>.
\<close>

definition mkComment_E :: "timeValue \<Rightarrow> jsstring \<Rightarrow> jsstring \<Rightarrow> jsstring \<Rightarrow> jsstring \<Rightarrow> Comment_E" where
  "mkComment_E now stamp name email text =
     \<lparr>c_id_E = toString now,
      c_author_E = name,
      c_email_E = Some email,
      c_text_E = text,
      c_date_E = stamp\<rparr>"

definition handleAddComment_E ::
  "timeValue \<Rightarrow> jsstring \<Rightarrow> jsstring \<Rightarrow> jsstring \<Rightarrow> jsstring \<Rightarrow> App_E \<Rightarrow> App_E" where
  "handleAddComment_E now stamp name email text s =
     s\<lparr>comments := mkComment_E now stamp name email text # comments s\<rparr>"

definition handleSubmit_E ::
  "timeValue \<Rightarrow> jsstring \<Rightarrow> Form_E \<times> App_E \<Rightarrow> Form_E \<times> App_E" where
  "handleSubmit_E now stamp fs =
     (case fs of (form, s) \<Rightarrow>
        if trim (form_name form) = [] \<or> trim (form_text form) = [] then (form, s)
        else (\<lparr>form_name = [], form_email = [], form_text = []\<rparr>,
              handleAddComment_E now stamp (form_name form) (form_email form) (form_text form) s))"

text \<open>
  \<^verbatim>\<open>exportData\<close>: \<^verbatim>\<open>csvContent\<close> grows by one row per file of each experience
  and one row per comment. \<^verbatim>\<open>c.email || ''\<close> is the empty string for an absent
  or empty address.
\<close>

definition fileRow_E ::
  "(int \<Rightarrow> jsstring) \<Rightarrow> Experience \<Rightarrow> DownloadableFile \<Rightarrow> jsstring" where
  "fileRow_E big exp f =
     [dq] @ e_title exp @ [dq] @ lit '','' @ [dq] @ f_filename f @ [dq] @ lit '','' @
     numberToString big (f_count f) @ [nl]"

definition emailOrEmpty :: "jsstring option \<Rightarrow> jsstring" where
  "emailOrEmpty e = (case e of None \<Rightarrow> [] | Some a \<Rightarrow> if a = [] then [] else a)"

definition commentRow_E :: "Comment_E \<Rightarrow> jsstring" where
  "commentRow_E c =
     [dq] @ c_date_E c @ [dq] @ lit '','' @ [dq] @ c_author_E c @ [dq] @ lit '','' @
     [dq] @ emailOrEmpty (c_email_E c) @ [dq] @ lit '','' @
     [dq] @ escapeQuotes (c_text_E c) @ [dq] @ [nl]"

definition exportData :: "(int \<Rightarrow> jsstring) \<Rightarrow> App_E \<Rightarrow> jsstring" where
  "exportData big s =
     (let csv0 = lit ''data:text/csv;charset=utf-8,'';
          csv1 = csv0 @ lit ''--- REPORTE DE DESCARGAS ---'' @ [nl];
          csv2 = csv1 @ lit ''Experiencia,Archivo,Descargas'' @ [nl];
          csv3 = fold (\<lambda>exp acc. fold (\<lambda>f acc'. acc' @ fileRow_E big exp f) (e_files exp) acc)
                   (experiences s) csv2;
          csv4 = csv3 @ [nl] @ lit ''--- REPORTE DE COMENTARIOS ---'' @ [nl];
          csv5 = csv4 @ lit ''Fecha,Autor,Email,Comentario'' @ [nl]
      in fold (\<lambda>c acc. acc @ commentRow_E c) (comments s) csv5)"

definition fallback_E :: jsstring where
  "fallback_E =
     lit ''Error conectando con la IA. Aseg'' @ [0xFA] @
     lit ''rate de tener conexi'' @ [0xF3] @ lit ''n a internet.''"

definition analyzeWithGemini_E :: "'e outcome list \<Rightarrow> App_E \<Rightarrow> App_E \<times> 'e outcome list" where
  "analyzeWithGemini_E service s =
     (let s1 = s\<lparr>isAnalyzing_E := True, aiAnalysis_E := None\<rparr>
      in case service of
           [] \<Rightarrow> (s1, [])
         | Responds t # rest \<Rightarrow> (s1\<lparr>aiAnalysis_E := t, isAnalyzing_E := False\<rparr>, rest)
         | Throws e # rest \<Rightarrow>
             (s1\<lparr>aiAnalysis_E := Some fallback_E, isAnalyzing_E := False\<rparr>, rest))"

section \<open>The seed catalogs\<close>

text \<open>
  The state with which each application starts when the browser's store holds nothing.
\<close>

definition INITIAL_RESOURCES :: "Resource list" where
  "INITIAL_RESOURCES =
     [\<lparr>r_id = lit ''1'',
       r_title = lit ''Gu'' @ [0xED] @ lit ''a de Pautas WCAG 2.1'',
       r_description =
         lit ''Documento t'' @ [0xE9] @ lit ''cnico completo sobre los principios de percepci'' @
         [0xF3] @ lit ''n, operaci'' @ [0xF3] @ lit ''n, comprensi'' @ [0xF3] @
         lit ''n y robustez para accesibilidad web.'',
       r_type = Pdf, r_url = lit ''#'', r_downloadCount = 156,
       r_comments =
         [\<lparr>c_id_R = lit ''c1'', c_author_R = lit ''Dev_Inclusivo'',
            c_text_R = lit ''Esencial para entender los criterios de conformidad A y AA.'',
            c_date_R = lit ''2023-11-10''\<rparr>]\<rparr>,
      \<lparr>r_id = lit ''2'',
       r_title = lit ''Podcast: Dise'' @ [0xF1] @ lit ''o Universal para el Aprendizaje (DUA)'',
       r_description =
         lit ''Episodio 01: Estrategias para eliminar barreras en el aula y crear curr'' @ [0xED] @
         lit ''culos flexibles. Duraci'' @ [0xF3] @ lit ''n: 35 min.'',
       r_type = Audio, r_url = lit ''#'', r_downloadCount = 98,
       r_comments =
         [\<lparr>c_id_R = lit ''c2'', c_author_R = lit ''Profe_Ana'',
            c_text_R = lit ''Muy '' @ [0xFA] @ lit ''til la secci'' @ [0xF3] @ lit ''n sobre m'' @ [0xFA] @
              lit ''ltiples formas de representaci'' @ [0xF3] @ lit ''n.'',
            c_date_R = lit ''2023-11-12''\<rparr>]\<rparr>,
      \<lparr>r_id = lit ''3'',
       r_title = lit ''Manual de Lectura F'' @ [0xE1] @ lit ''cil'',
       r_description =
         lit ''Metodolog'' @ [0xED] @ lit ''as para la adaptaci'' @ [0xF3] @
         lit ''n de textos y creaci'' @ [0xF3] @
         lit ''n de contenidos cognitivamente accesibles.'',
       r_type = Pdf, r_url = lit ''#'', r_downloadCount = 210,
       r_comments =
         []\<rparr>]"

definition INITIAL_EXPERIENCES :: "Experience list" where
  "INITIAL_EXPERIENCES =
     [\<lparr>e_id = 1,
       e_title =
         lit ''1. Escribe con tu voz: experimenta la accesibilidad con TalkBack'',
       e_audioSrc = lit ''exp1-audio.mp3'',
       e_files =
         [\<lparr>f_id = lit ''e1-f1'',
            f_label = lit ''Descargar Gu'' @ [0xED] @ lit ''a Escrita'',
            f_filename = lit ''exp1-guia.pdf'', f_count = 0\<rparr>,
          \<lparr>f_id = lit ''e1-f2'',
            f_label = lit ''Descargar Plantilla de Observaci'' @ [0xF3] @ lit ''n Docente'',
            f_filename = lit ''exp1-observacion-docente.pdf'', f_count = 0\<rparr>,
          \<lparr>f_id = lit ''e1-f3'',
            f_label = lit ''Descargar Plantilla de Reflexi'' @ [0xF3] @ lit ''n Estudiantil'',
            f_filename = lit ''exp1-reflexion-estudiante.pdf'', f_count = 0\<rparr>]\<rparr>,
      \<lparr>e_id = 2,
       e_title =
         lit ''2. Descubre con tus o'' @ [0xED] @ lit ''dos: explorando el mundo con Google Lens'',
       e_audioSrc = lit ''exp2-audio.mp3'',
       e_files =
         [\<lparr>f_id = lit ''e2-f1'',
            f_label = lit ''Descargar Gu'' @ [0xED] @ lit ''a Escrita'',
            f_filename = lit ''exp2-guia.pdf'', f_count = 0\<rparr>,
          \<lparr>f_id = lit ''e2-f2'',
            f_label = lit ''Plantilla de Observaci'' @ [0xF3] @ lit ''n Docente'',
            f_filename = lit ''exp2-observacion-docente.pdf'', f_count = 0\<rparr>,
          \<lparr>f_id = lit ''e2-f3'',
            f_label = lit ''Plantilla de Reflexi'' @ [0xF3] @ lit ''n Estudiantil'',
            f_filename = lit ''exp2-reflexion-estudiante.pdf'', f_count = 0\<rparr>]\<rparr>,
      \<lparr>e_id = 3,
       e_title =
         lit ''3. Escucha para aprender: acceso a la informaci'' @ [0xF3] @
         lit ''n escrita con Lookout'',
       e_audioSrc = lit ''exp3-audio.mp3'',
       e_files =
         [\<lparr>f_id = lit ''e3-f1'',
            f_label = lit ''Descargar Gu'' @ [0xED] @ lit ''a Escrita'',
            f_filename = lit ''exp3-guia.pdf'', f_count = 0\<rparr>,
          \<lparr>f_id = lit ''e3-f2'',
            f_label = lit ''Plantilla de Observaci'' @ [0xF3] @ lit ''n Docente'',
            f_filename = lit ''exp3-observacion-docente.pdf'', f_count = 0\<rparr>,
          \<lparr>f_id = lit ''e3-f3'',
            f_label = lit ''Plantilla de Reflexi'' @ [0xF3] @ lit ''n Estudiantil'',
            f_filename = lit ''exp3-reflexion-estudiante.pdf'', f_count = 0\<rparr>]\<rparr>]"

definition initial_R :: App_R where
  "initial_R =
     \<lparr>resources = INITIAL_RESOURCES, showStats = False, aiAnalysis_R = None,
      isAnalyzing_R = False\<rparr>"

definition initial_E :: App_E where
  "initial_E =
     \<lparr>experiences = INITIAL_EXPERIENCES, comments = [], showAdmin = False,
      aiAnalysis_E = None, isAnalyzing_E = False\<rparr>"

section \<open>Sequences of comment submissions\<close>

text \<open>
  A submission carries the two clock readings made while it is handled, then the
  arguments of \<^verbatim>\<open>handleAddComment\<close>.
\<close>

record Submission_E =
  sub_now :: timeValue
  sub_stamp :: jsstring
  sub_name :: jsstring
  sub_email :: jsstring
  sub_text :: jsstring

definition addComments_E :: "Submission_E list \<Rightarrow> App_E \<Rightarrow> App_E" where
  "addComments_E subs s =
     fold (\<lambda>b. handleAddComment_E (sub_now b) (sub_stamp b) (sub_name b) (sub_email b) (sub_text b))
       subs s"

record Submission_R =
  post_now :: timeValue
  post_today :: jsstring
  post_target :: jsstring
  post_text :: jsstring
  post_author :: jsstring

definition addComments_R :: "Submission_R list \<Rightarrow> App_R \<Rightarrow> App_R" where
  "addComments_R subs s =
     fold (\<lambda>b. handleAddComment_R (post_now b) (post_today b) (post_target b) (post_text b)
                 (post_author b))
       subs s"

text \<open>
  No comment list of the catalog repeats an id or already holds the id that one of the
  submissions will receive.
\<close>

definition fresh_R :: "Submission_R list \<Rightarrow> App_R \<Rightarrow> bool" where
  "fresh_R subs s \<longleftrightarrow>
     (\<forall>r \<in> set (resources s).
        distinct (map c_id_R (r_comments r)) \<and>
        (\<forall>b \<in> set subs. toString (post_now b) \<notin> c_id_R ` set (r_comments r)))"

section \<open>Reading a quoted CSV field\<close>

text \<open>
  The reference against which the export is judged: a field as the escaping rule writes
  it, and the reading of a quoted field by an RFC 4180 reader. \<open>readQuoted\<close> runs after
  the opening quote: a doubled quote is one literal quote, a single quote closes the
  field, and the rest of the input is returned with the field's text.
\<close>

definition csvField_spec :: "jsstring \<Rightarrow> jsstring" where
  "csvField_spec t = [dq] @ escapeQuotes t @ [dq]"

fun readQuoted :: "jsstring \<Rightarrow> (jsstring \<times> jsstring) option" where
  "readQuoted [] = None"
| "readQuoted [c] = (if c = dq then Some ([], []) else None)"
| "readQuoted (c # d # ds) =
     (if c = dq
      then (if d = dq then map_option (\<lambda>(t, rest). (dq # t, rest)) (readQuoted ds)
            else Some ([], d # ds))
      else map_option (\<lambda>(t, rest). (c # t, rest)) (readQuoted (d # ds)))"

definition readField :: "jsstring \<Rightarrow> (jsstring \<times> jsstring) option" where
  "readField s = (case s of [] \<Rightarrow> None | c # cs \<Rightarrow> if c = dq then readQuoted cs else None)"

section \<open>Facts about strings\<close>

lemma unat_of_char: "unat (of_char c :: 16 word) = of_char c"
proof -
  have "(of_char c :: nat) mod 256 = of_char c"
    by (rule of_char_mod_256)
  then have "(of_char c :: nat) < 256"
    by (metis mod_less_divisor zero_less_numeral)
  then have "(of_char c :: nat) < 2 ^ 16"
    by (rule order_less_trans) simp
  then have "(of_char c :: nat) mod 2 ^ 16 = of_char c"
    by (rule mod_less)
  moreover have "(of_char c :: 16 word) = of_nat (of_char c)"
    by (simp add: of_nat_of_char)
  ultimately show ?thesis
    by (simp add: unat_of_nat)
qed

lemma of_char_word_inj: "(of_char a :: 16 word) = of_char b \<longleftrightarrow> a = b"
proof
  assume "(of_char a :: 16 word) = of_char b"
  then have "unat (of_char a :: 16 word) = unat (of_char b :: 16 word)"
    by simp
  then show "a = b"
    by (simp add: unat_of_char)
qed simp

lemma lit_eq_iff: "lit a = lit b \<longleftrightarrow> a = b"
  unfolding lit_def
  by (rule inj_map_eq_map) (simp add: inj_on_def of_char_word_inj)

lemma trim_empty_iff: "trim s = [] \<longleftrightarrow> (\<forall>c \<in> set s. isWhiteSpace c)"
proof
  assume "trim s = []"
  then have "\<forall>c \<in> set (dropWhile isWhiteSpace s). isWhiteSpace c"
    by (simp add: trim_def dropWhile_eq_Nil_conv)
  then have "dropWhile isWhiteSpace s = []"
    using hd_dropWhile [of isWhiteSpace s] hd_in_set [of "dropWhile isWhiteSpace s"] by blast
  then show "\<forall>c \<in> set s. isWhiteSpace c"
    by (simp add: dropWhile_eq_Nil_conv)
next
  assume "\<forall>c \<in> set s. isWhiteSpace c"
  then have d: "dropWhile isWhiteSpace s = []"
    by (simp add: dropWhile_eq_Nil_conv)
  show "trim s = []"
    unfolding trim_def d by simp
qed

text \<open>The decimal rendering of integers is injective.\<close>

lemma digit_eq_iff: "d < 10 \<Longrightarrow> d' < 10 \<Longrightarrow> digit d = digit d' \<longleftrightarrow> d = d'"
  by (simp add: digit_def word_of_nat_eq_iff take_bit_nat_eq_self)

lemma digit_not_minus: "d < 10 \<Longrightarrow> digit d \<noteq> 0x2D"
proof -
  assume small: "d < 10"
  have "(0x2D :: 16 word) = of_nat 45"
    by simp
  moreover have "take_bit 16 (48 + d) \<noteq> take_bit 16 (45 :: nat)"
    using small by (simp add: take_bit_nat_eq_self)
  ultimately show ?thesis
    unfolding digit_def by (simp only: word_of_nat_eq_iff len_bit0 len_num1) simp
qed

lemma natToString_small: "n < 10 \<Longrightarrow> natToString n = [digit n]"
  by (subst natToString.simps) simp

lemma natToString_large:
  "\<not> n < 10 \<Longrightarrow> natToString n = natToString (n div 10) @ [digit (n mod 10)]"
  by (subst natToString.simps) simp

lemma natToString_not_Nil: "natToString n \<noteq> []"
  by (cases "n < 10") (simp_all add: natToString_small natToString_large)

lemma hd_natToString_not_minus: "hd (natToString n) \<noteq> 0x2D"
proof (induction n rule: natToString.induct)
  case (1 n)
  show ?case
  proof (cases "n < 10")
    case True
    then show ?thesis
      by (simp add: natToString_small digit_not_minus)
  next
    case False
    with 1 show ?thesis
      by (simp add: natToString_large natToString_not_Nil)
  qed
qed

lemma natToString_inj: "natToString n = natToString m \<Longrightarrow> n = m"
proof (induction n arbitrary: m rule: natToString.induct)
  case (1 n)
  show ?case
  proof (cases "n < 10")
    case small: True
    show ?thesis
    proof (cases "m < 10")
      case True
      with small "1.prems" show ?thesis
        by (simp add: natToString_small digit_eq_iff)
    next
      case False
      with small "1.prems" show ?thesis
        by (simp add: natToString_small natToString_large natToString_not_Nil [THEN not_sym])
    qed
  next
    case large: False
    show ?thesis
    proof (cases "m < 10")
      case True
      with large "1.prems" show ?thesis
        by (simp add: natToString_small natToString_large natToString_not_Nil)
    next
      case False
      with large "1.prems"
      have "natToString (n div 10) = natToString (m div 10)" and "digit (n mod 10) = digit (m mod 10)"
        by (simp_all add: natToString_large)
      with large "1.IH" have "n div 10 = m div 10" and "n mod 10 = m mod 10"
        by (simp_all add: digit_eq_iff)
      then show ?thesis
        by (metis div_mult_mod_eq)
    qed
  qed
qed

lemma decimal_inj: "decimal a = decimal b \<Longrightarrow> a = b"
proof -
  assume eq: "decimal a = decimal b"
  consider "a < 0" "b < 0" | "a < 0" "0 \<le> b" | "0 \<le> a" "b < 0" | "0 \<le> a" "0 \<le> b"
    by linarith
  then show ?thesis
  proof cases
    case 1
    with eq have "natToString (nat (- a)) = natToString (nat (- b))"
      by (simp add: decimal_def)
    then have "nat (- a) = nat (- b)"
      by (rule natToString_inj)
    with 1 show ?thesis
      by simp
  next
    case 2
    with eq have "0x2D # natToString (nat (- a)) = natToString (nat b)"
      by (simp add: decimal_def)
    then have "hd (natToString (nat b)) = 0x2D"
      by (metis list.sel(1))
    then show ?thesis
      by (simp add: hd_natToString_not_minus)
  next
    case 3
    with eq have "natToString (nat a) = 0x2D # natToString (nat (- b))"
      by (simp add: decimal_def)
    then have "hd (natToString (nat a)) = 0x2D"
      by (metis list.sel(1))
    then show ?thesis
      by (simp add: hd_natToString_not_minus)
  next
    case 4
    with eq have "natToString (nat a) = natToString (nat b)"
      by (simp add: decimal_def)
    then have "nat a = nat b"
      by (rule natToString_inj)
    with 4 show ?thesis
      by simp
  qed
qed

lemma Rep_timeValue_exact:
  "- (2 ^ 53) \<le> Rep_timeValue t \<and> Rep_timeValue t \<le> 2 ^ 53"
  using Rep_timeValue [of t] by simp

lemma numberToString_timeValue: "numberToString big (Rep_timeValue t) = toString t"
  using Rep_timeValue_exact [of t] by (simp add: numberToString_def toString_def)

lemma toString_inj: "toString a = toString b \<Longrightarrow> a = b"
  unfolding toString_def by (drule decimal_inj) (simp add: Rep_timeValue_inject)

lemma toString_Abs:
  "0 \<le> n \<Longrightarrow> n < 10 \<Longrightarrow> toString (Abs_timeValue n) = [digit (nat n)]"
  by (simp add: toString_def Abs_timeValue_inverse decimal_def natToString_small)

text \<open>
  A field written by the escaping rule is read back by the quoted-field reader, whatever
  its text; the comment text of \<^verbatim>\<open>exportData\<close> is written by that rule.
\<close>

lemma escapeQuotes_Nil: "escapeQuotes [] = []"
  by (simp add: escapeQuotes_def)

lemma escapeQuotes_Cons:
  "escapeQuotes (c # cs) = (if c = dq then dq # dq # escapeQuotes cs else c # escapeQuotes cs)"
  by (simp add: escapeQuotes_def)

lemma readQuoted_plain:
  "c \<noteq> dq \<Longrightarrow> xs \<noteq> [] \<Longrightarrow>
   readQuoted (c # xs) = map_option (\<lambda>(t, rest). (c # t, rest)) (readQuoted xs)"
  by (cases xs) simp_all

lemma readQuoted_escapeQuotes:
  "rest = [] \<or> hd rest \<noteq> dq \<Longrightarrow> readQuoted (escapeQuotes t @ dq # rest) = Some (t, rest)"
proof (induction t)
  case Nil
  then show ?case
    by (cases rest) (simp_all add: escapeQuotes_Nil)
next
  case (Cons c cs)
  show ?case
  proof (cases "c = dq")
    case True
    with Cons show ?thesis
      by (simp add: escapeQuotes_Cons)
  next
    case False
    with Cons show ?thesis
      by (simp add: escapeQuotes_Cons readQuoted_plain)
  qed
qed

lemma readField_csvField_spec:
  "rest = [] \<or> hd rest \<noteq> dq \<Longrightarrow> readField (csvField_spec t @ rest) = Some (t, rest)"
  by (simp add: readField_def csvField_spec_def readQuoted_escapeQuotes)

lemma commentRow_E_text_field:
  "commentRow_E c =
     [dq] @ c_date_E c @ [dq] @ lit '','' @ [dq] @ c_author_E c @ [dq] @ lit '','' @
     [dq] @ emailOrEmpty (c_email_E c) @ [dq] @ lit '','' @ csvField_spec (c_text_E c) @ [nl]"
  by (simp add: commentRow_E_def csvField_spec_def)

lemma numberToString_digit:
  "0 \<le> n \<Longrightarrow> n < 10 \<Longrightarrow> numberToString big n = [digit (nat n)]"
  by (simp add: numberToString_def decimal_def natToString_small)

section \<open>The download mutation\<close>

lemma resources_handleDownload_R:
  "resources (fst (handleDownload_R ident title s)) =
     map (\<lambda>r. if r_id r = ident then r\<lparr>r_downloadCount := plusOne (r_downloadCount r)\<rparr> else r)
       (resources s)"
  by (simp add: handleDownload_R_def)

lemma experiences_handleDownload_E:
  "experiences (handleDownload_E expId fileId t) =
     map (\<lambda>exp. if e_id exp \<noteq> expId then exp
                 else exp\<lparr>e_files :=
                        map (\<lambda>f. if f_id f = fileId then f\<lparr>f_count := plusOne (f_count f)\<rparr> else f)
                          (e_files exp)\<rparr>)
       (experiences t)"
  by (simp add: handleDownload_E_def)

lemma download_R_pointwise:
  "i < length (resources s) \<Longrightarrow>
   resources (fst (handleDownload_R ident title s)) ! i =
     (if r_id (resources s ! i) = ident
      then (resources s ! i)\<lparr>r_downloadCount := plusOne (r_downloadCount (resources s ! i))\<rparr>
      else resources s ! i)"
  by (simp add: resources_handleDownload_R)

lemma download_E_pointwise:
  "i < length (experiences t) \<Longrightarrow> j < length (e_files (experiences t ! i)) \<Longrightarrow>
   e_files (experiences (handleDownload_E expId fileId t) ! i) ! j =
     (if e_id (experiences t ! i) = expId \<and> f_id (e_files (experiences t ! i) ! j) = fileId
      then (e_files (experiences t ! i) ! j)
             \<lparr>f_count := plusOne (f_count (e_files (experiences t ! i) ! j))\<rparr>
      else e_files (experiences t ! i) ! j)"
  by (simp add: experiences_handleDownload_E)

lemma download_R_only_one:
  assumes "distinct (map r_id (resources s))" and "i < length (resources s)"
    and "r_id (resources s ! i) = ident" and "k < length (resources s)" and "k \<noteq> i"
  shows "resources (fst (handleDownload_R ident title s)) ! k = resources s ! k"
proof -
  from assms have "map r_id (resources s) ! k \<noteq> map r_id (resources s) ! i"
    by (simp add: nth_eq_iff_index_eq del: nth_map)
  with assms have "r_id (resources s ! k) \<noteq> ident"
    by simp
  with assms(4) show ?thesis
    by (simp add: download_R_pointwise)
qed

lemma download_E_only_one:
  assumes "distinct (map e_id (experiences t))" and "i < length (experiences t)"
    and "e_id (experiences t ! i) = expId"
    and "distinct (map f_id (e_files (experiences t ! i)))"
    and "j < length (e_files (experiences t ! i))"
    and "f_id (e_files (experiences t ! i) ! j) = fileId"
    and "k < length (experiences t)" and "l < length (e_files (experiences t ! k))"
    and "(k, l) \<noteq> (i, j)"
  shows "e_files (experiences (handleDownload_E expId fileId t) ! k) ! l =
           e_files (experiences t ! k) ! l"
proof (cases "k = i")
  case True
  with assms(9) have "l \<noteq> j"
    by simp
  with assms(4,5,8) True
  have "map f_id (e_files (experiences t ! i)) ! l \<noteq> map f_id (e_files (experiences t ! i)) ! j"
    by (simp add: nth_eq_iff_index_eq del: nth_map)
  with assms(5,6,8) True have "f_id (e_files (experiences t ! k) ! l) \<noteq> fileId"
    by simp
  with assms(7,8) show ?thesis
    by (simp add: download_E_pointwise)
next
  case False
  with assms(1,2,7) have "map e_id (experiences t) ! k \<noteq> map e_id (experiences t) ! i"
    by (simp add: nth_eq_iff_index_eq del: nth_map)
  with assms(2,3,7) have "e_id (experiences t ! k) \<noteq> expId"
    by simp
  with assms(7,8) show ?thesis
    by (simp add: download_E_pointwise)
qed

lemma plusOne_exact: "- (2 ^ 53) \<le> n \<Longrightarrow> n < 2 ^ 53 \<Longrightarrow> plusOne n = n + 1"
  by (simp add: plusOne_def)

text \<open>
  Claim C1, amended. One call of the download mutation adds exactly 1 to the counter of
  every entry that the identifiers match and whose counter lies from \<open>-2^53\<close> to
  \<open>2^53 - 1\<close>, and leaves the counter of every entry they do not match as it was; the
  catalog keeps its length and order. In \<^verbatim>\<open>src/index.tsx\<close> an entry is a
  resource, matched by its id; in \<^verbatim>\<open>src/unnamed/part_000\<close> it is a file, matched by
  the id of its experience together with its own id. Where the ids are unique, as the
  data model has them, the matched entry is the only one whose counter changes.
\<close>

theorem download_increments_matching:
  "length (resources (fst (handleDownload_R ident title s))) = length (resources s) \<and>
   (\<forall>i < length (resources s).
      (r_id (resources s ! i) = ident \<and>
       - (2 ^ 53) \<le> r_downloadCount (resources s ! i) \<and> r_downloadCount (resources s ! i) < 2 ^ 53 \<longrightarrow>
         r_downloadCount (resources (fst (handleDownload_R ident title s)) ! i) =
           r_downloadCount (resources s ! i) + 1) \<and>
      (r_id (resources s ! i) \<noteq> ident \<longrightarrow>
         r_downloadCount (resources (fst (handleDownload_R ident title s)) ! i) =
           r_downloadCount (resources s ! i))) \<and>
   (distinct (map r_id (resources s)) \<longrightarrow>
      (\<forall>i < length (resources s). r_id (resources s ! i) = ident \<longrightarrow>
         (\<forall>k < length (resources s). k \<noteq> i \<longrightarrow>
            r_downloadCount (resources (fst (handleDownload_R ident title s)) ! k) =
              r_downloadCount (resources s ! k)))) \<and>
   length (experiences (handleDownload_E expId fileId t)) = length (experiences t) \<and>
   (\<forall>i < length (experiences t).
      length (e_files (experiences (handleDownload_E expId fileId t) ! i)) =
        length (e_files (experiences t ! i)) \<and>
      (\<forall>j < length (e_files (experiences t ! i)).
         (e_id (experiences t ! i) = expId \<and> f_id (e_files (experiences t ! i) ! j) = fileId \<and>
          - (2 ^ 53) \<le> f_count (e_files (experiences t ! i) ! j) \<and>
          f_count (e_files (experiences t ! i) ! j) < 2 ^ 53 \<longrightarrow>
            f_count (e_files (experiences (handleDownload_E expId fileId t) ! i) ! j) =
              f_count (e_files (experiences t ! i) ! j) + 1) \<and>
         (\<not> (e_id (experiences t ! i) = expId \<and> f_id (e_files (experiences t ! i) ! j) = fileId) \<longrightarrow>
            f_count (e_files (experiences (handleDownload_E expId fileId t) ! i) ! j) =
              f_count (e_files (experiences t ! i) ! j)))) \<and>
   (distinct (map e_id (experiences t)) \<longrightarrow>
      (\<forall>i < length (experiences t). e_id (experiences t ! i) = expId \<longrightarrow>
         distinct (map f_id (e_files (experiences t ! i))) \<longrightarrow>
         (\<forall>j < length (e_files (experiences t ! i)).
            f_id (e_files (experiences t ! i) ! j) = fileId \<longrightarrow>
            (\<forall>k < length (experiences t). \<forall>l < length (e_files (experiences t ! k)).
               (k, l) \<noteq> (i, j) \<longrightarrow>
               f_count (e_files (experiences (handleDownload_E expId fileId t) ! k) ! l) =
                 f_count (e_files (experiences t ! k) ! l)))))"
proof (intro conjI allI impI)
  show "length (resources (fst (handleDownload_R ident title s))) = length (resources s)"
    by (simp add: resources_handleDownload_R)
next
  show "length (experiences (handleDownload_E expId fileId t)) = length (experiences t)"
    by (simp add: experiences_handleDownload_E)
next
  fix i
  assume "i < length (resources s)"
    and "r_id (resources s ! i) = ident \<and>
         - (2 ^ 53) \<le> r_downloadCount (resources s ! i) \<and> r_downloadCount (resources s ! i) < 2 ^ 53"
  then show "r_downloadCount (resources (fst (handleDownload_R ident title s)) ! i) =
      r_downloadCount (resources s ! i) + 1"
    by (simp add: download_R_pointwise plusOne_exact)
next
  fix i
  assume "i < length (resources s)" and "r_id (resources s ! i) \<noteq> ident"
  then show "r_downloadCount (resources (fst (handleDownload_R ident title s)) ! i) =
      r_downloadCount (resources s ! i)"
    by (simp add: download_R_pointwise)
next
  fix i
  assume "i < length (experiences t)"
  then show "length (e_files (experiences (handleDownload_E expId fileId t) ! i)) =
      length (e_files (experiences t ! i))"
    by (simp add: experiences_handleDownload_E)
next
  fix i j
  assume "i < length (experiences t)" and "j < length (e_files (experiences t ! i))"
    and "e_id (experiences t ! i) = expId \<and> f_id (e_files (experiences t ! i) ! j) = fileId \<and>
         - (2 ^ 53) \<le> f_count (e_files (experiences t ! i) ! j) \<and>
         f_count (e_files (experiences t ! i) ! j) < 2 ^ 53"
  then show "f_count (e_files (experiences (handleDownload_E expId fileId t) ! i) ! j) =
      f_count (e_files (experiences t ! i) ! j) + 1"
    by (simp add: download_E_pointwise plusOne_exact)
next
  fix i j
  assume "i < length (experiences t)" and "j < length (e_files (experiences t ! i))"
    and "\<not> (e_id (experiences t ! i) = expId \<and> f_id (e_files (experiences t ! i) ! j) = fileId)"
  then show "f_count (e_files (experiences (handleDownload_E expId fileId t) ! i) ! j) =
      f_count (e_files (experiences t ! i) ! j)"
    by (auto simp add: download_E_pointwise)
next
  fix i k
  assume "distinct (map r_id (resources s))" and "i < length (resources s)"
    and "r_id (resources s ! i) = ident" and "k < length (resources s)" and "k \<noteq> i"
  then have "resources (fst (handleDownload_R ident title s)) ! k = resources s ! k"
    by (rule download_R_only_one)
  then show "r_downloadCount (resources (fst (handleDownload_R ident title s)) ! k) =
      r_downloadCount (resources s ! k)"
    by simp
next
  fix i j k l
  assume "distinct (map e_id (experiences t))" and "i < length (experiences t)"
    and "e_id (experiences t ! i) = expId"
    and "distinct (map f_id (e_files (experiences t ! i)))"
    and "j < length (e_files (experiences t ! i))"
    and "f_id (e_files (experiences t ! i) ! j) = fileId"
    and "k < length (experiences t)" and "l < length (e_files (experiences t ! k))"
    and "(k, l) \<noteq> (i, j)"
  then have "e_files (experiences (handleDownload_E expId fileId t) ! k) ! l =
      e_files (experiences t ! k) ! l"
    by (rule download_E_only_one)
  then show "f_count (e_files (experiences (handleDownload_E expId fileId t) ! k) ! l) =
      f_count (e_files (experiences t ! k) ! l)"
    by simp
qed

theorem download_increments_matching_witness:
  "r_downloadCount (resources (fst (handleDownload_R (lit ''1'') (lit ''t'') initial_R)) ! 0) = 157 \<and>
   r_downloadCount (resources (fst (handleDownload_R (lit ''1'') (lit ''t'') initial_R)) ! 1) = 98 \<and>
   r_downloadCount (resources (fst (handleDownload_R (lit ''1'') (lit ''t'') initial_R)) ! 2) = 210 \<and>
   f_count (e_files (experiences (handleDownload_E 1 (lit ''e1-f1'') initial_E) ! 0) ! 0) = 1 \<and>
   f_count (e_files (experiences (handleDownload_E 1 (lit ''e1-f1'') initial_E) ! 0) ! 1) = 0 \<and>
   f_count (e_files (experiences (handleDownload_E 1 (lit ''e1-f1'') initial_E) ! 2) ! 0) = 0"
proof -
  note th = download_increments_matching [of "lit ''1''" "lit ''t''" initial_R 1 "lit ''e1-f1''"
      initial_E]
  have ids: "distinct (map r_id (resources initial_R))"
    "distinct (map e_id (experiences initial_E))"
    "distinct (map f_id (e_files (experiences initial_E ! 0)))"
    by (simp_all add: initial_R_def initial_E_def INITIAL_RESOURCES_def INITIAL_EXPERIENCES_def
        lit_eq_iff)
  have sizes: "0 < length (resources initial_R)" "1 < length (resources initial_R)"
    "2 < length (resources initial_R)" "0 < length (experiences initial_E)"
    "2 < length (experiences initial_E)" "0 < length (e_files (experiences initial_E ! 0))"
    "1 < length (e_files (experiences initial_E ! 0))"
    "0 < length (e_files (experiences initial_E ! 2))"
    by (simp_all add: initial_R_def initial_E_def INITIAL_RESOURCES_def INITIAL_EXPERIENCES_def)
  have seed: "r_id (resources initial_R ! 0) = lit ''1''"
    "r_downloadCount (resources initial_R ! 0) = 156"
    "r_downloadCount (resources initial_R ! 1) = 98"
    "r_downloadCount (resources initial_R ! 2) = 210"
    "e_id (experiences initial_E ! 0) = 1"
    "f_id (e_files (experiences initial_E ! 0) ! 0) = lit ''e1-f1''"
    "f_count (e_files (experiences initial_E ! 0) ! 0) = 0"
    "f_count (e_files (experiences initial_E ! 0) ! 1) = 0"
    "f_count (e_files (experiences initial_E ! 2) ! 0) = 0"
    by (simp_all add: initial_R_def initial_E_def INITIAL_RESOURCES_def INITIAL_EXPERIENCES_def)
  have bounds: "- (2 ^ 53) \<le> r_downloadCount (resources initial_R ! 0)"
    "r_downloadCount (resources initial_R ! 0) < 2 ^ 53"
    "- (2 ^ 53) \<le> f_count (e_files (experiences initial_E ! 0) ! 0)"
    "f_count (e_files (experiences initial_E ! 0) ! 0) < 2 ^ 53"
    by (simp_all add: seed)
  from th sizes seed(1,2) bounds(1,2) have "r_downloadCount
      (resources (fst (handleDownload_R (lit ''1'') (lit ''t'') initial_R)) ! 0) = 157"
    by simp
  moreover from th ids sizes seed have "r_downloadCount
      (resources (fst (handleDownload_R (lit ''1'') (lit ''t'') initial_R)) ! 1) = 98"
    "r_downloadCount
      (resources (fst (handleDownload_R (lit ''1'') (lit ''t'') initial_R)) ! 2) = 210"
    by (metis zero_neq_one, metis zero_neq_numeral)
  moreover from th sizes seed(5,6,7) bounds(3,4)
  have "f_count (e_files (experiences (handleDownload_E 1 (lit ''e1-f1'') initial_E) ! 0) ! 0) = 1"
    by simp
  moreover from th ids sizes seed
  have "f_count (e_files (experiences (handleDownload_E 1 (lit ''e1-f1'') initial_E) ! 0) ! 1) = 0"
    "f_count (e_files (experiences (handleDownload_E 1 (lit ''e1-f1'') initial_E) ! 2) ! 0) = 0"
    by (metis (no_types, lifting) Pair_inject zero_neq_one,
        metis (no_types, lifting) Pair_inject zero_neq_numeral)
  ultimately show ?thesis
    by blast
qed

text \<open>
  Without the bound the counter need not move: at \<open>2^53\<close> the sum \<open>2^53 + 1\<close> is
  not a double and \<^verbatim>\<open>count + 1\<close> returns \<open>2^53\<close> again, in both catalogs.
\<close>

theorem download_at_limit_counterexample:
  "r_downloadCount (resources (fst (handleDownload_R (lit ''1'') (lit ''t'')
      \<lparr>resources =
         [\<lparr>r_id = lit ''1'', r_title = lit ''t'', r_description = [], r_type = Pdf,
           r_url = lit ''#'', r_downloadCount = 9007199254740992, r_comments = []\<rparr>],
       showStats = False, aiAnalysis_R = None, isAnalyzing_R = False\<rparr>)) ! 0) =
     9007199254740992 \<and>
   f_count (e_files (experiences (handleDownload_E 1 (lit ''f1'')
      \<lparr>experiences =
         [\<lparr>e_id = 1, e_title = lit ''t'', e_audioSrc = lit ''a.mp3'',
           e_files = [\<lparr>f_id = lit ''f1'', f_label = lit ''l'', f_filename = lit ''g.pdf'',
                       f_count = 9007199254740992\<rparr>]\<rparr>],
       comments = [], showAdmin = False, aiAnalysis_E = None, isAnalyzing_E = False\<rparr>) ! 0) ! 0) =
     9007199254740992"
  by (simp add: handleDownload_R_def handleDownload_E_def plusOne_def)

text \<open>
  Claim C5. When the resource id names no resource, or, in the nested catalog, when no
  experience with that id holds a file with the given file id, the download mutation
  returns the catalog state it was given. The model has no error branch because the
  source has none: it is a \<^verbatim>\<open>map\<close> over the catalog.
\<close>

theorem download_unknown_id_noop:
  "(ident \<notin> r_id ` set (resources s) \<longrightarrow> fst (handleDownload_R ident title s) = s) \<and>
   ((\<forall>exp \<in> set (experiences t). e_id exp = expId \<longrightarrow> fileId \<notin> f_id ` set (e_files exp)) \<longrightarrow>
      handleDownload_E expId fileId t = t)"
proof (intro conjI impI)
  assume "ident \<notin> r_id ` set (resources s)"
  then have "map (\<lambda>r. if r_id r = ident then r\<lparr>r_downloadCount := plusOne (r_downloadCount r)\<rparr> else r)
               (resources s) = resources s"
    by (intro map_idI) auto
  then show "fst (handleDownload_R ident title s) = s"
    by (simp add: handleDownload_R_def)
next
  assume miss: "\<forall>exp \<in> set (experiences t). e_id exp = expId \<longrightarrow> fileId \<notin> f_id ` set (e_files exp)"
  have "(if e_id exp \<noteq> expId then exp
         else exp\<lparr>e_files :=
                map (\<lambda>f. if f_id f = fileId then f\<lparr>f_count := plusOne (f_count f)\<rparr> else f)
                  (e_files exp)\<rparr>) = exp"
    if "exp \<in> set (experiences t)" for exp
  proof (cases "e_id exp = expId")
    case True
    with miss that have "fileId \<notin> f_id ` set (e_files exp)"
      by blast
    then have "map (\<lambda>f. if f_id f = fileId then f\<lparr>f_count := plusOne (f_count f)\<rparr> else f) (e_files exp)
                 = e_files exp"
      by (intro map_idI) auto
    then show ?thesis
      by simp
  next
    case False
    then show ?thesis
      by simp
  qed
  then have "experiences (handleDownload_E expId fileId t) = experiences t"
    unfolding experiences_handleDownload_E by (intro map_idI)
  then show "handleDownload_E expId fileId t = t"
    by (simp add: handleDownload_E_def)
qed

theorem download_unknown_id_noop_witness:
  "fst (handleDownload_R (lit ''9'') (lit ''t'') initial_R) = initial_R \<and>
   handleDownload_E 2 (lit ''e1-f1'') initial_E = initial_E"
proof -
  have a: "lit ''9'' \<notin> r_id ` set (resources initial_R)"
    by (simp add: initial_R_def INITIAL_RESOURCES_def lit_eq_iff)
  have b: "\<forall>exp \<in> set (experiences initial_E). e_id exp = 2 \<longrightarrow> lit ''e1-f1'' \<notin> f_id ` set (e_files exp)"
    by (simp add: initial_E_def INITIAL_EXPERIENCES_def lit_eq_iff)
  from a b download_unknown_id_noop [of "lit ''9''" initial_R "lit ''t''" initial_E 2 "lit ''e1-f1''"]
  show ?thesis
    by blast
qed

section \<open>The comment mutation\<close>

lemma resources_handleAddComment_R:
  "resources (handleAddComment_R now today ident text author s) =
     map (\<lambda>r. if r_id r = ident
               then r\<lparr>r_comments := mkComment_R now today text author # r_comments r\<rparr>
               else r)
       (resources s)"
  by (simp add: handleAddComment_R_def)

text \<open>
  Claim C2. The add-comment mutation yields a collection one longer than before, whose
  head is the comment just built and whose tail is the previous collection, element for
  element. In \<^verbatim>\<open>src/unnamed/part_000\<close> the collection is the global list; in
  \<^verbatim>\<open>src/index.tsx\<close> it is the list of every resource carrying the target id,
  and the lists of the other resources stay as they were. Neither function looks at the
  text, so this holds for every text, the non-empty ones included.
\<close>

theorem add_comment_prepends:
  "length (comments (handleAddComment_E now stamp name email text t)) = length (comments t) + 1 \<and>
   hd (comments (handleAddComment_E now stamp name email text t)) =
     mkComment_E now stamp name email text \<and>
   tl (comments (handleAddComment_E now stamp name email text t)) = comments t \<and>
   length (resources (handleAddComment_R now today ident text author s)) = length (resources s) \<and>
   (\<forall>i < length (resources s).
      if r_id (resources s ! i) = ident
      then length (r_comments (resources (handleAddComment_R now today ident text author s) ! i)) =
             length (r_comments (resources s ! i)) + 1 \<and>
           hd (r_comments (resources (handleAddComment_R now today ident text author s) ! i)) =
             mkComment_R now today text author \<and>
           tl (r_comments (resources (handleAddComment_R now today ident text author s) ! i)) =
             r_comments (resources s ! i)
      else r_comments (resources (handleAddComment_R now today ident text author s) ! i) =
             r_comments (resources s ! i))"
  by (simp add: resources_handleAddComment_R handleAddComment_E_def)

theorem add_comment_prepends_witness:
  "hd (r_comments (resources (handleAddComment_R (Abs_timeValue 1700000000000) (lit ''2023-11-14'') (lit ''1'')
         (lit ''Gracias'') (lit ''Ana'') initial_R) ! 0)) =
     mkComment_R (Abs_timeValue 1700000000000) (lit ''2023-11-14'') (lit ''Gracias'') (lit ''Ana'') \<and>
   tl (r_comments (resources (handleAddComment_R (Abs_timeValue 1700000000000) (lit ''2023-11-14'') (lit ''1'')
         (lit ''Gracias'') (lit ''Ana'') initial_R) ! 0)) = r_comments (INITIAL_RESOURCES ! 0) \<and>
   r_comments (resources (handleAddComment_R (Abs_timeValue 1700000000000) (lit ''2023-11-14'') (lit ''1'')
         (lit ''Gracias'') (lit ''Ana'') initial_R) ! 2) = []"
proof -
  let ?s' = "handleAddComment_R (Abs_timeValue 1700000000000) (lit ''2023-11-14'') (lit ''1'')
               (lit ''Gracias'') (lit ''Ana'') initial_R"
  have all: "\<forall>i < length (resources initial_R).
      if r_id (resources initial_R ! i) = lit ''1''
      then length (r_comments (resources ?s' ! i)) = length (r_comments (resources initial_R ! i)) + 1 \<and>
           hd (r_comments (resources ?s' ! i)) =
             mkComment_R (Abs_timeValue 1700000000000) (lit ''2023-11-14'') (lit ''Gracias'') (lit ''Ana'') \<and>
           tl (r_comments (resources ?s' ! i)) = r_comments (resources initial_R ! i)
      else r_comments (resources ?s' ! i) = r_comments (resources initial_R ! i)"
    using add_comment_prepends [of "Abs_timeValue 1700000000000" "[]" "[]" "[]" "lit ''Gracias''" initial_E
        "lit ''2023-11-14''" "lit ''1''" "lit ''Ana''" initial_R]
    by blast
  have first: "r_id (resources initial_R ! 0) = lit ''1''" "0 < length (resources initial_R)"
    and third: "r_id (resources initial_R ! 2) \<noteq> lit ''1''" "2 < length (resources initial_R)"
    and none: "r_comments (resources initial_R ! 2) = []"
    and same: "resources initial_R = INITIAL_RESOURCES"
    by (simp_all add: initial_R_def INITIAL_RESOURCES_def lit_eq_iff)
  from all first have "hd (r_comments (resources ?s' ! 0)) =
        mkComment_R (Abs_timeValue 1700000000000) (lit ''2023-11-14'') (lit ''Gracias'') (lit ''Ana'') \<and>
      tl (r_comments (resources ?s' ! 0)) = r_comments (resources initial_R ! 0)"
    by presburger
  moreover from all third none have "r_comments (resources ?s' ! 2) = []"
    by presburger
  ultimately show ?thesis
    by (simp only: same)
qed

text \<open>
  Claim C4. A submission whose text is empty or made of white space only returns before
  the mutation is called: the form and the whole application state, the comments with
  it, come back unchanged.
\<close>

theorem blank_comment_rejected:
  "((\<forall>c \<in> set (newComment crd). isWhiteSpace c) \<longrightarrow>
      handleSubmitComment_R now today resource (crd, s) = (crd, s)) \<and>
   ((\<forall>c \<in> set (form_text form). isWhiteSpace c) \<longrightarrow>
      handleSubmit_E now stamp (form, t) = (form, t))"
  by (simp add: handleSubmitComment_R_def handleSubmit_E_def trim_empty_iff)

theorem blank_comment_rejected_witness:
  "handleSubmitComment_R (Abs_timeValue 5) (lit ''2023-11-14'') (INITIAL_RESOURCES ! 0)
     (\<lparr>showComments = True, newComment = [0x20, 0x09, 0x3000], authorName = lit ''Ana''\<rparr>, initial_R) =
     (\<lparr>showComments = True, newComment = [0x20, 0x09, 0x3000], authorName = lit ''Ana''\<rparr>, initial_R) \<and>
   handleSubmit_E (Abs_timeValue 5) (lit ''14/11/2023'')
     (\<lparr>form_name = lit ''Ana'', form_email = [], form_text = [0x0A, 0xA0]\<rparr>, initial_E) =
     (\<lparr>form_name = lit ''Ana'', form_email = [], form_text = [0x0A, 0xA0]\<rparr>, initial_E)"
  using blank_comment_rejected [of "\<lparr>showComments = True, newComment = [0x20, 0x09, 0x3000], authorName = lit ''Ana''\<rparr>"
      "Abs_timeValue 5" "lit ''2023-11-14''" "INITIAL_RESOURCES ! 0" initial_R
      "\<lparr>form_name = lit ''Ana'', form_email = [], form_text = [0x0A, 0xA0]\<rparr>" "lit ''14/11/2023''" initial_E]
  by (simp add: isWhiteSpace_def)

text \<open>
  Claim C9. In \<^verbatim>\<open>src/index.tsx\<close> the name is optional: an accepted submission with
  an empty author name puts a comment with the author \<open>Usuario\<close> at the head of the
  target resource's list. In \<^verbatim>\<open>src/unnamed/part_000\<close> the name is required: a
  submission whose name is empty or white space only changes nothing.
\<close>

theorem blank_author_placeholder:
  "(trim (newComment crd) \<noteq> [] \<and> authorName crd = [] \<longrightarrow>
      (\<forall>i < length (resources s). r_id (resources s ! i) = r_id resource \<longrightarrow>
         c_author_R (hd (r_comments
            (resources (snd (handleSubmitComment_R now today resource (crd, s))) ! i))) =
           lit ''Usuario'')) \<and>
   ((\<forall>c \<in> set (form_name form). isWhiteSpace c) \<longrightarrow>
      handleSubmit_E now stamp (form, t) = (form, t))"
  by (simp add: handleSubmitComment_R_def handleSubmit_E_def trim_empty_iff
      resources_handleAddComment_R mkComment_R_def)

theorem blank_author_placeholder_witness:
  "c_author_R (hd (r_comments (resources (snd (handleSubmitComment_R (Abs_timeValue 5) (lit ''2023-11-14'')
       (INITIAL_RESOURCES ! 2)
       (\<lparr>showComments = True, newComment = lit ''Gracias'', authorName = []\<rparr>, initial_R))) ! 2))) =
     lit ''Usuario'' \<and>
   handleSubmit_E (Abs_timeValue 5) (lit ''14/11/2023'')
     (\<lparr>form_name = [], form_email = [], form_text = lit ''Gracias''\<rparr>, initial_E) =
     (\<lparr>form_name = [], form_email = [], form_text = lit ''Gracias''\<rparr>, initial_E)"
proof -
  let ?crd = "\<lparr>showComments = True, newComment = lit ''Gracias'', authorName = []\<rparr>"
  let ?form = "\<lparr>form_name = [], form_email = [], form_text = lit ''Gracias''\<rparr>"
  note th = blank_author_placeholder [of ?crd initial_R "INITIAL_RESOURCES ! 2" "Abs_timeValue 5"
      "lit ''2023-11-14''" ?form "lit ''14/11/2023''" initial_E]
  have filled: "trim (newComment ?crd) \<noteq> [] \<and> authorName ?crd = []"
    by (simp add: trim_empty_iff isWhiteSpace_def lit_def)
  have third: "2 < length (resources initial_R)"
    "r_id (resources initial_R ! 2) = r_id (INITIAL_RESOURCES ! 2)"
    by (simp_all add: initial_R_def INITIAL_RESOURCES_def)
  have name: "\<forall>c \<in> set (form_name ?form). isWhiteSpace c"
    by simp
  from th filled third name show ?thesis
    by blast
qed

section \<open>The insight request\<close>

text \<open>
  Claim C6. Whatever the \<^verbatim>\<open>try\<close> block throws, the displayed analysis becomes
  the fixed fallback message and the busy flag ends false; exactly one answer of the
  service is consumed, so nothing is retried, and the resulting state is the same for
  any two errors.
\<close>

theorem insight_failure_fallback:
  "aiAnalysis_R (fst (analyzeWithGemini_R (Throws e # rest) s)) = Some fallback_R \<and>
   isAnalyzing_R (fst (analyzeWithGemini_R (Throws e # rest) s)) = False \<and>
   snd (analyzeWithGemini_R (Throws e # rest) s) = rest \<and>
   fst (analyzeWithGemini_R (Throws e # rest) s) = fst (analyzeWithGemini_R (Throws e' # rest') s) \<and>
   aiAnalysis_E (fst (analyzeWithGemini_E (Throws e # rest) t)) = Some fallback_E \<and>
   isAnalyzing_E (fst (analyzeWithGemini_E (Throws e # rest) t)) = False \<and>
   snd (analyzeWithGemini_E (Throws e # rest) t) = rest \<and>
   fst (analyzeWithGemini_E (Throws e # rest) t) = fst (analyzeWithGemini_E (Throws e' # rest') t)"
  by (simp add: analyzeWithGemini_R_def analyzeWithGemini_E_def)

section \<open>What the mutations leave alone\<close>

text \<open>
  Claim C10. The download mutation keeps every resource's id, title, description, type,
  url and comments (every experience's id, title and audio source, every file's id,
  label and filename, and the global comment list); the add-comment mutation keeps every
  resource's id, title, description, type, url and download counter (the whole list of
  experiences).
\<close>

theorem mutations_frame:
  "(\<forall>i < length (resources s).
      r_id (resources (fst (handleDownload_R ident title s)) ! i) = r_id (resources s ! i) \<and>
      r_title (resources (fst (handleDownload_R ident title s)) ! i) = r_title (resources s ! i) \<and>
      r_description (resources (fst (handleDownload_R ident title s)) ! i) =
        r_description (resources s ! i) \<and>
      r_type (resources (fst (handleDownload_R ident title s)) ! i) = r_type (resources s ! i) \<and>
      r_url (resources (fst (handleDownload_R ident title s)) ! i) = r_url (resources s ! i) \<and>
      r_comments (resources (fst (handleDownload_R ident title s)) ! i) =
        r_comments (resources s ! i)) \<and>
   (\<forall>i < length (resources s).
      r_id (resources (handleAddComment_R now today ident text author s) ! i) =
        r_id (resources s ! i) \<and>
      r_title (resources (handleAddComment_R now today ident text author s) ! i) =
        r_title (resources s ! i) \<and>
      r_description (resources (handleAddComment_R now today ident text author s) ! i) =
        r_description (resources s ! i) \<and>
      r_type (resources (handleAddComment_R now today ident text author s) ! i) =
        r_type (resources s ! i) \<and>
      r_url (resources (handleAddComment_R now today ident text author s) ! i) =
        r_url (resources s ! i) \<and>
      r_downloadCount (resources (handleAddComment_R now today ident text author s) ! i) =
        r_downloadCount (resources s ! i)) \<and>
   comments (handleDownload_E expId fileId t) = comments t \<and>
   (\<forall>i < length (experiences t).
      e_id (experiences (handleDownload_E expId fileId t) ! i) = e_id (experiences t ! i) \<and>
      e_title (experiences (handleDownload_E expId fileId t) ! i) = e_title (experiences t ! i) \<and>
      e_audioSrc (experiences (handleDownload_E expId fileId t) ! i) =
        e_audioSrc (experiences t ! i) \<and>
      (\<forall>j < length (e_files (experiences t ! i)).
         f_id (e_files (experiences (handleDownload_E expId fileId t) ! i) ! j) =
           f_id (e_files (experiences t ! i) ! j) \<and>
         f_label (e_files (experiences (handleDownload_E expId fileId t) ! i) ! j) =
           f_label (e_files (experiences t ! i) ! j) \<and>
         f_filename (e_files (experiences (handleDownload_E expId fileId t) ! i) ! j) =
           f_filename (e_files (experiences t ! i) ! j))) \<and>
   experiences (handleAddComment_E now stamp name email text t) = experiences t"
  by (simp add: resources_handleDownload_R resources_handleAddComment_R
      experiences_handleDownload_E handleDownload_E_def handleAddComment_E_def)

theorem mutations_frame_witness:
  "r_title (resources (fst (handleDownload_R (lit ''3'') (lit ''t'') initial_R)) ! 2) =
     r_title (INITIAL_RESOURCES ! 2) \<and>
   r_comments (resources (fst (handleDownload_R (lit ''3'') (lit ''t'') initial_R)) ! 2) = [] \<and>
   r_downloadCount (resources (handleAddComment_R (Abs_timeValue 5) (lit ''2023-11-14'') (lit ''3'')
       (lit ''Gracias'') (lit ''Ana'') initial_R) ! 2) = 210 \<and>
   f_filename (e_files (experiences (handleDownload_E 1 (lit ''e1-f1'') initial_E) ! 0) ! 0) =
     lit ''exp1-guia.pdf''"
proof -
  note th = mutations_frame [of initial_R "lit ''3''" "lit ''t''" "Abs_timeValue 5"
      "lit ''2023-11-14''"
      "lit ''Gracias''" "lit ''Ana''" 1 "lit ''e1-f1''" initial_E "[]" "[]" "[]"]
  have third: "2 < length (resources initial_R)"
    and seed: "resources initial_R ! 2 = INITIAL_RESOURCES ! 2"
      "r_comments (INITIAL_RESOURCES ! 2) = []" "r_downloadCount (INITIAL_RESOURCES ! 2) = 210"
    by (simp_all add: initial_R_def INITIAL_RESOURCES_def)
  have guide: "0 < length (experiences initial_E)" "0 < length (e_files (experiences initial_E ! 0))"
    "f_filename (e_files (experiences initial_E ! 0) ! 0) = lit ''exp1-guia.pdf''"
    by (simp_all add: initial_E_def INITIAL_EXPERIENCES_def)
  from th third seed guide show ?thesis
    by metis
qed

section \<open>Quoting in the report\<close>

text \<open>
  Claim C3. The escaping rule wants every free-text field wrapped in double quotes with
  each inner double quote doubled. \<^verbatim>\<open>exportData\<close> does so for the comment text
  only; titles, authors, dates, addresses and filenames are wrapped but not escaped, in
  both exports. For the title \<^verbatim>\<open>El "DUA"\<close> the row of \<^verbatim>\<open>exportStats\<close> holds
  \<^verbatim>\<open>"El "DUA""\<close>, from which the reader recovers \<^verbatim>\<open>El \<close> and not the title;
  the rule's field would be \<^verbatim>\<open>"El ""DUA"""\<close>. \<^verbatim>\<open>exportData\<close> writes the same
  title and the author \<^verbatim>\<open>Ana "Profe"\<close> the same way, next to a comment text whose
  quotes it does double.
\<close>

theorem export_title_quote_not_doubled:
  "exportStats big
     \<lparr>resources =
        [\<lparr>r_id = lit ''4'', r_title = lit ''El '' @ [dq] @ lit ''DUA'' @ [dq],
          r_description = [], r_type = Pdf, r_url = lit ''#'', r_downloadCount = 0,
          r_comments = []\<rparr>],
      showStats = True, aiAnalysis_R = None, isAnalyzing_R = False\<rparr> =
     lit ''data:text/csv;charset=utf-8,ID,Titulo,Tipo,Descargas,Total_Comentarios'' @ [nl] @
     lit ''4,'' @ [dq] @ lit ''El '' @ [dq] @ lit ''DUA'' @ [dq] @ [dq] @ lit '',pdf,0,0'' \<and>
   readField ([dq] @ lit ''El '' @ [dq] @ lit ''DUA'' @ [dq] @ [dq] @ lit '',pdf,0,0'') =
     Some (lit ''El '', lit ''DUA'' @ [dq] @ [dq] @ lit '',pdf,0,0'') \<and>
   csvField_spec (lit ''El '' @ [dq] @ lit ''DUA'' @ [dq]) =
     [dq] @ lit ''El '' @ [dq, dq] @ lit ''DUA'' @ [dq, dq] @ [dq] \<and>
   exportData big
     \<lparr>experiences =
        [\<lparr>e_id = 1, e_title = lit ''El '' @ [dq] @ lit ''DUA'' @ [dq], e_audioSrc = lit ''a.mp3'',
          e_files = [\<lparr>f_id = lit ''f1'', f_label = lit ''Gu'' @ [0xED] @ lit ''a'',
                      f_filename = lit ''g.pdf'', f_count = 2\<rparr>]\<rparr>],
      comments =
        [\<lparr>c_id_E = lit ''5'', c_author_E = lit ''Ana '' @ [dq] @ lit ''Profe'' @ [dq],
          c_email_E = Some [], c_text_E = lit ''Muy '' @ [dq] @ lit ''bien'' @ [dq],
          c_date_E = lit ''hoy''\<rparr>],
      showAdmin = True, aiAnalysis_E = None, isAnalyzing_E = False\<rparr> =
     lit ''data:text/csv;charset=utf-8,--- REPORTE DE DESCARGAS ---'' @ [nl] @
     lit ''Experiencia,Archivo,Descargas'' @ [nl] @
     [dq] @ lit ''El '' @ [dq] @ lit ''DUA'' @ [dq] @ [dq] @ lit '','' @
       [dq] @ lit ''g.pdf'' @ [dq] @ lit '',2'' @ [nl] @
     [nl] @ lit ''--- REPORTE DE COMENTARIOS ---'' @ [nl] @
     lit ''Fecha,Autor,Email,Comentario'' @ [nl] @
     [dq] @ lit ''hoy'' @ [dq] @ lit '','' @
       [dq] @ lit ''Ana '' @ [dq] @ lit ''Profe'' @ [dq] @ [dq] @ lit '','' @
       [dq] @ [dq] @ lit '','' @
       [dq] @ lit ''Muy '' @ [dq, dq] @ lit ''bien'' @ [dq, dq] @ [dq] @ [nl]"
  by (simp add: exportStats_def row_R_def typeString_def exportData_def fileRow_E_def
      commentRow_E_def emailOrEmpty_def escapeQuotes_def csvField_spec_def readField_def
      numberToString_digit digit_def lit_def dq_def nl_def)

section \<open>Comment ids\<close>

lemma comments_handleAddComment_E:
  "comments (handleAddComment_E now stamp name email text t) =
     mkComment_E now stamp name email text # comments t"
  by (simp add: handleAddComment_E_def)

lemma addComments_E_Cons:
  "addComments_E (b # subs) t =
     addComments_E subs
       (handleAddComment_E (sub_now b) (sub_stamp b) (sub_name b) (sub_email b) (sub_text b) t)"
  by (simp add: addComments_E_def)

lemma addComments_R_Cons:
  "addComments_R (b # subs) s =
     addComments_R subs
       (handleAddComment_R (post_now b) (post_today b) (post_target b) (post_text b)
          (post_author b) s)"
  by (simp add: addComments_R_def)

lemma ids_distinct_E:
  "distinct (map sub_now subs) \<Longrightarrow>
   distinct (map c_id_E (comments t)) \<Longrightarrow>
   \<forall>b \<in> set subs. toString (sub_now b) \<notin> c_id_E ` set (comments t) \<Longrightarrow>
   distinct (map c_id_E (comments (addComments_E subs t)))"
proof (induction subs arbitrary: t)
  case Nil
  then show ?case
    by (simp add: addComments_E_def)
next
  case (Cons b subs)
  let ?t = "handleAddComment_E (sub_now b) (sub_stamp b) (sub_name b) (sub_email b) (sub_text b) t"
  have ids: "map c_id_E (comments ?t) = toString (sub_now b) # map c_id_E (comments t)"
    by (simp add: comments_handleAddComment_E mkComment_E_def)
  have "distinct (map c_id_E (comments ?t))"
    using Cons.prems(2,3) unfolding ids by simp
  moreover have "\<forall>b' \<in> set subs. toString (sub_now b') \<notin> c_id_E ` set (comments ?t)"
  proof
    fix b'
    assume mem: "b' \<in> set subs"
    with Cons.prems(1) have "sub_now b' \<noteq> sub_now b"
      by (metis distinct.simps(2) imageI list.simps(9) list.set_map)
    then have "toString (sub_now b') \<noteq> toString (sub_now b)"
      using toString_inj by blast
    moreover from mem Cons.prems(3) have "toString (sub_now b') \<notin> c_id_E ` set (comments t)"
      by simp
    ultimately show "toString (sub_now b') \<notin> c_id_E ` set (comments ?t)"
      using ids by (metis list.set_map list.simps(15) insert_iff)
  qed
  moreover from Cons.prems(1) have "distinct (map sub_now subs)"
    by simp
  ultimately show ?case
    unfolding addComments_E_Cons by (intro Cons.IH)
qed


lemma fresh_R_step:
  assumes "distinct (map post_now (b # subs))" and "fresh_R (b # subs) s"
  shows "fresh_R subs
           (handleAddComment_R (post_now b) (post_today b) (post_target b) (post_text b)
              (post_author b) s)"
  unfolding fresh_R_def
proof (intro ballI conjI)
  fix r'
  assume "r' \<in> set (resources (handleAddComment_R (post_now b) (post_today b) (post_target b)
                       (post_text b) (post_author b) s))"
  then obtain r where r: "r \<in> set (resources s)"
    and r': "r' = (if r_id r = post_target b
                   then r\<lparr>r_comments := mkComment_R (post_now b) (post_today b) (post_text b)
                                           (post_author b) # r_comments r\<rparr>
                   else r)"
    unfolding resources_handleAddComment_R by auto
  from r assms(2) have old: "distinct (map c_id_R (r_comments r))"
    and new: "\<forall>b' \<in> set (b # subs). toString (post_now b') \<notin> c_id_R ` set (r_comments r)"
    by (simp_all add: fresh_R_def)
  have ids: "c_id_R ` set (r_comments r') \<subseteq> insert (toString (post_now b)) (c_id_R ` set (r_comments r))"
    unfolding r' by (auto simp: mkComment_R_def)
  show "distinct (map c_id_R (r_comments r'))"
    unfolding r' using old new by (simp add: mkComment_R_def)
  fix b'
  assume mem: "b' \<in> set subs"
  with assms(1) have "post_now b' \<noteq> post_now b"
    by (metis distinct.simps(2) imageI list.simps(9) list.set_map)
  then have "toString (post_now b') \<noteq> toString (post_now b)"
    using toString_inj by blast
  moreover from mem new have "toString (post_now b') \<notin> c_id_R ` set (r_comments r)"
    by simp
  ultimately show "toString (post_now b') \<notin> c_id_R ` set (r_comments r')"
    using ids by blast
qed

lemma ids_distinct_R:
  "distinct (map post_now subs) \<Longrightarrow> fresh_R subs s \<Longrightarrow>
   \<forall>r \<in> set (resources (addComments_R subs s)). distinct (map c_id_R (r_comments r))"
proof (induction subs arbitrary: s)
  case Nil
  then show ?case
    by (simp add: addComments_R_def fresh_R_def)
next
  case (Cons b subs)
  from Cons.prems have "fresh_R subs
      (handleAddComment_R (post_now b) (post_today b) (post_target b) (post_text b)
         (post_author b) s)"
    by (rule fresh_R_step)
  moreover from Cons.prems(1) have "distinct (map post_now subs)"
    by simp
  ultimately show ?case
    unfolding addComments_R_Cons by (intro Cons.IH)
qed

text \<open>
  Claim C7, amended. A comment's id is the decimal rendering of the clock reading taken
  when it is built. Along a sequence of add-comment operations whose readings are
  pairwise different, starting from a collection whose ids are pairwise different and
  hold none of those renderings, the ids of every collection stay pairwise different:
  each new id differs from all ids present when it is inserted.
\<close>

theorem comment_ids_distinct_for_distinct_readings:
  "(distinct (map sub_now subs) \<and> distinct (map c_id_E (comments t)) \<and>
    (\<forall>b \<in> set subs. toString (sub_now b) \<notin> c_id_E ` set (comments t)) \<longrightarrow>
      distinct (map c_id_E (comments (addComments_E subs t)))) \<and>
   (distinct (map post_now posts) \<and> fresh_R posts s \<longrightarrow>
      (\<forall>r \<in> set (resources (addComments_R posts s)). distinct (map c_id_R (r_comments r))))"
  using ids_distinct_E ids_distinct_R by blast

theorem comment_ids_distinct_for_distinct_readings_witness:
  "distinct (map c_id_E (comments (addComments_E
      [\<lparr>sub_now = Abs_timeValue 1700000000000, sub_stamp = lit ''14/11/2023'', sub_name = lit ''Ana'',
        sub_email = [], sub_text = lit ''Gracias''\<rparr>,
       \<lparr>sub_now = Abs_timeValue 1700000000001, sub_stamp = lit ''14/11/2023'', sub_name = lit ''Luis'',
        sub_email = [], sub_text = lit ''Hola''\<rparr>]
      initial_E))) \<and>
   distinct (map c_id_R (r_comments (resources (addComments_R
      [\<lparr>post_now = Abs_timeValue 5, post_today = lit ''2023-11-14'', post_target = lit ''1'',
        post_text = lit ''Gracias'', post_author = lit ''Ana''\<rparr>,
       \<lparr>post_now = Abs_timeValue 6, post_today = lit ''2023-11-14'', post_target = lit ''1'',
        post_text = lit ''Hola'', post_author = []\<rparr>]
      initial_R) ! 0)))"
proof -
  let ?subs = "[\<lparr>sub_now = Abs_timeValue 1700000000000, sub_stamp = lit ''14/11/2023'', sub_name = lit ''Ana'',
        sub_email = [], sub_text = lit ''Gracias''\<rparr>,
       \<lparr>sub_now = Abs_timeValue 1700000000001, sub_stamp = lit ''14/11/2023'', sub_name = lit ''Luis'',
        sub_email = [], sub_text = lit ''Hola''\<rparr>]"
  let ?posts = "[\<lparr>post_now = Abs_timeValue 5, post_today = lit ''2023-11-14'', post_target = lit ''1'',
        post_text = lit ''Gracias'', post_author = lit ''Ana''\<rparr>,
       \<lparr>post_now = Abs_timeValue 6, post_today = lit ''2023-11-14'', post_target = lit ''1'',
        post_text = lit ''Hola'', post_author = []\<rparr>]"
  note th = comment_ids_distinct_for_distinct_readings [of ?subs initial_E ?posts initial_R]
  have e1: "distinct (map sub_now ?subs)"
    by (simp add: Abs_timeValue_inject)
  have e2: "distinct (map c_id_E (comments initial_E))"
    and e3: "\<forall>b \<in> set ?subs. toString (sub_now b) \<notin> c_id_E ` set (comments initial_E)"
    by (simp_all add: initial_E_def)
  have r1: "distinct (map post_now ?posts)"
    by (simp add: Abs_timeValue_inject)
  have r2: "fresh_R ?posts initial_R"
    by (simp add: fresh_R_def initial_R_def INITIAL_RESOURCES_def toString_Abs digit_def lit_def)
  have "0 < length (resources (addComments_R ?posts initial_R))"
    by (simp add: addComments_R_def handleAddComment_R_def initial_R_def INITIAL_RESOURCES_def)
  then have r3: "resources (addComments_R ?posts initial_R) ! 0
                   \<in> set (resources (addComments_R ?posts initial_R))"
    by (rule nth_mem)
  from th e1 e2 e3 r1 r2 r3 show ?thesis
    by blast
qed

text \<open>
  Without the condition on the readings the ids can repeat: two submissions handled at
  the same millisecond receive the same id.
\<close>

theorem comment_ids_collide_counterexample:
  "\<not> distinct (map c_id_E (comments (addComments_E
        [\<lparr>sub_now = Abs_timeValue 1700000000000, sub_stamp = lit ''14/11/2023'', sub_name = lit ''Ana'',
          sub_email = [], sub_text = lit ''Gracias''\<rparr>,
         \<lparr>sub_now = Abs_timeValue 1700000000000, sub_stamp = lit ''14/11/2023'', sub_name = lit ''Luis'',
          sub_email = [], sub_text = lit ''Hola''\<rparr>]
        initial_E)))"
  by (simp add: addComments_E_def handleAddComment_E_def mkComment_E_def initial_E_def)

end
